theory Spec2Isabelle
  imports Complex_Main "HOL-Library.Word"
begin

section \<open>Machine types and errors\<close>

text \<open>
  The C++ sources use \<^verbatim>\<open>int\<close> and \<^verbatim>\<open>unsigned int\<close> for spins, degrees, grid
  dimensions and indices.  They are modelled as 32-bit words: \<open>sint\<close> reads an
  \<^verbatim>\<open>int\<close>, \<open>unat\<close> an \<^verbatim>\<open>unsigned int\<close>, and arithmetic wraps.  A
  \<^verbatim>\<open>double\<close> is modelled as a real number and a \<^verbatim>\<open>std::complex<double>\<close> as a
  complex number; rounding is outside the model.
\<close>

type_synonym c_int = "32 word"
type_synonym c_uint = "32 word"

text \<open>
  The exceptions thrown by the code.  The \<^verbatim>\<open>GWFrames_...\<close> constants are the error codes
  of \<^verbatim>\<open>Errors.hpp\<close>; \<open>Std_length_error\<close> is the exception of a \<^verbatim>\<open>std::vector\<close>
  asked for more elements than it can hold.  \<open>Out_of_range\<close> stands for an unchecked
  access past the end of a \<^verbatim>\<open>std::vector\<close>, which C++ leaves undefined.
  \<open>Shape_mismatch\<close> and \<open>Domain_error\<close> are the error classes (a) and (b) of the
  specification, used by the operations whose bodies are not part of the sources.  What
  the code prints on \<^verbatim>\<open>cerr\<close> before throwing is not modelled.
\<close>

datatype error =
    GWFrames_IndexOutOfBounds
  | GWFrames_NotYetImplemented
  | GWFrames_VectorSizeMismatch
  | Std_length_error
  | Out_of_range
  | Shape_mismatch
  | Domain_error

section \<open>Integer square root\<close>

text \<open>
  \<^verbatim>\<open>DataGrid(const int size)\<close> initialises both grid dimensions with
  \<^verbatim>\<open>std::sqrt(size)\<close>, a \<^verbatim>\<open>double\<close> that the member initialiser truncates to
  \<^verbatim>\<open>int\<close>.  For a non-negative 32-bit argument that is the integer part of the square
  root.  \<open>floor_sqrt\<close> computes it by search from above; the theorems below relate it to
  the real square root.
\<close>

primrec sqrt_upto :: "nat \<Rightarrow> nat \<Rightarrow> nat" where
  "sqrt_upto n 0 = 0"
| "sqrt_upto n (Suc k) = (if Suc k * Suc k \<le> n then Suc k else sqrt_upto n k)"

definition floor_sqrt :: "nat \<Rightarrow> nat" where
  "floor_sqrt n = sqrt_upto n n"

section \<open>DataGrid\<close>

text \<open>The private data of \<^verbatim>\<open>class DataGrid\<close>.\<close>

record DataGrid =
  s :: c_int
  n_theta :: c_int
  n_phi :: c_int
  data :: "complex list"

text \<open>
  \<^verbatim>\<open>DataGrid(const int size=0) : s(0), n_theta(std::sqrt(size)), n_phi(std::sqrt(size)),
  data(size)\<close>.  The vector is value-initialised, so every sample is zero.  A negative
  size has no real square root, and converted to \<^verbatim>\<open>size_t\<close> it asks the vector for more
  elements than it can hold: the construction fails.
\<close>

definition DataGrid_of_size :: "c_int \<Rightarrow> error + DataGrid" where
  "DataGrid_of_size sz =
     (if sint sz < 0 then Inl Std_length_error
      else Inr \<lparr>DataGrid.s = 0,
                n_theta = word_of_nat (floor_sqrt (nat (sint sz))),
                n_phi = word_of_nat (floor_sqrt (nat (sint sz))),
                data = replicate (nat (sint sz)) 0\<rparr>)"

text \<open>\<^verbatim>\<open>DataGrid(const DataGrid& A)\<close>, the copy constructor.\<close>

definition DataGrid_copy :: "DataGrid \<Rightarrow> DataGrid" where
  "DataGrid_copy A =
     \<lparr>DataGrid.s = DataGrid.s A, n_theta = n_theta A, n_phi = n_phi A,
      data = DataGrid.data A\<rparr>"

text \<open>
  The modifiers \<^verbatim>\<open>SetSpin\<close>, \<^verbatim>\<open>SetNTheta\<close> and \<^verbatim>\<open>SetNPhi\<close> assign one member and
  return the object.
\<close>

definition DataGrid_SetSpin :: "DataGrid \<Rightarrow> c_int \<Rightarrow> DataGrid" where
  "DataGrid_SetSpin g ess = g\<lparr>DataGrid.s := ess\<rparr>"

definition SetNTheta :: "DataGrid \<Rightarrow> c_int \<Rightarrow> DataGrid" where
  "SetNTheta g Ntheta = g\<lparr>n_theta := Ntheta\<rparr>"

definition SetNPhi :: "DataGrid \<Rightarrow> c_int \<Rightarrow> DataGrid" where
  "SetNPhi g Nphi = g\<lparr>n_phi := Nphi\<rparr>"

text \<open>The accessors \<^verbatim>\<open>size()\<close>, \<^verbatim>\<open>Spin()\<close>, \<^verbatim>\<open>N_theta()\<close> and \<^verbatim>\<open>N_phi()\<close>.\<close>

definition DataGrid_size :: "DataGrid \<Rightarrow> c_uint" where
  "DataGrid_size g = word_of_nat (length (DataGrid.data g))"

definition DataGrid_Spin :: "DataGrid \<Rightarrow> c_int" where
  "DataGrid_Spin g = DataGrid.s g"

definition N_theta :: "DataGrid \<Rightarrow> c_int" where
  "N_theta g = n_theta g"

definition N_phi :: "DataGrid \<Rightarrow> c_int" where
  "N_phi g = n_phi g"

text \<open>
  The shape invariant of the specification: the number of stored samples is the product
  of the two dimensions.
\<close>

definition DataGrid_inv :: "DataGrid \<Rightarrow> bool" where
  "DataGrid_inv g \<longleftrightarrow>
     int (length (DataGrid.data g)) = sint (N_theta g) * sint (N_phi g)"

text \<open>
  Modelled from the spec: the body of
  \<^verbatim>\<open>DataGrid(const int Spin, const int N_theta, const int N_phi, const std::vector<...>& D)\<close>
  is missing; only its declaration is part of the sources.  Section 3 of the specification
  fixes the sample count of a grid as \<open>n_theta * n_phi\<close> and section 7 makes a mismatched
  array length a shape mismatch that is fatal to the operation.
\<close>

definition DataGrid_of_data :: "c_int \<Rightarrow> c_int \<Rightarrow> c_int \<Rightarrow> complex list \<Rightarrow> error + DataGrid" where
  "DataGrid_of_data Spin Ntheta Nphi D =
     (if int (length D) = sint Ntheta * sint Nphi
      then Inr \<lparr>DataGrid.s = Spin, n_theta = Ntheta, n_phi = Nphi, data = D\<rparr>
      else Inl Shape_mismatch)"

text \<open>
  Modelled from the spec: the bodies of the arithmetic operators of \<^verbatim>\<open>DataGrid\<close> are
  missing.  Section 4.1: the grid algebra is pointwise, the spin of a product is the sum
  of the spins and the spin of a quotient their difference, division by a grid with an
  exact zero sample fails with a domain error; section 3 makes the sum of fields of
  different spins fail, section 7 makes mismatched shapes fail.
\<close>

definition same_shape :: "DataGrid \<Rightarrow> DataGrid \<Rightarrow> bool" where
  "same_shape A B \<longleftrightarrow>
     n_theta A = n_theta B \<and> n_phi A = n_phi B \<and>
     length (DataGrid.data A) = length (DataGrid.data B)"

definition DataGrid_times :: "DataGrid \<Rightarrow> DataGrid \<Rightarrow> error + DataGrid" where
  "DataGrid_times A B =
     (if \<not> same_shape A B then Inl Shape_mismatch
      else Inr \<lparr>DataGrid.s = DataGrid.s A + DataGrid.s B,
                n_theta = n_theta A, n_phi = n_phi A,
                data = map2 (*) (DataGrid.data A) (DataGrid.data B)\<rparr>)"

definition DataGrid_divide :: "DataGrid \<Rightarrow> DataGrid \<Rightarrow> error + DataGrid" where
  "DataGrid_divide A B =
     (if \<not> same_shape A B then Inl Shape_mismatch
      else if 0 \<in> set (DataGrid.data B) then Inl Domain_error
      else Inr \<lparr>DataGrid.s = DataGrid.s A - DataGrid.s B,
                n_theta = n_theta A, n_phi = n_phi A,
                data = map2 (/) (DataGrid.data A) (DataGrid.data B)\<rparr>)"

definition DataGrid_plus :: "DataGrid \<Rightarrow> DataGrid \<Rightarrow> error + DataGrid" where
  "DataGrid_plus A B =
     (if \<not> same_shape A B \<or> DataGrid.s A \<noteq> DataGrid.s B then Inl Shape_mismatch
      else Inr \<lparr>DataGrid.s = DataGrid.s A,
                n_theta = n_theta A, n_phi = n_phi A,
                data = map2 (+) (DataGrid.data A) (DataGrid.data B)\<rparr>)"

definition DataGrid_minus :: "DataGrid \<Rightarrow> DataGrid \<Rightarrow> error + DataGrid" where
  "DataGrid_minus A B =
     (if \<not> same_shape A B \<or> DataGrid.s A \<noteq> DataGrid.s B then Inl Shape_mismatch
      else Inr \<lparr>DataGrid.s = DataGrid.s A,
                n_theta = n_theta A, n_phi = n_phi A,
                data = map2 (-) (DataGrid.data A) (DataGrid.data B)\<rparr>)"

text \<open>
  Modelled from the spec: the body of \<^verbatim>\<open>DataGrid::pow(const int p)\<close> is missing.
  Section 4.1 lists the integer power with the pointwise operations of the grid algebra;
  by the product rule for spins the \<open>p\<close>-th power has \<open>p\<close> times the spin.
\<close>

definition DataGrid_pow :: "DataGrid \<Rightarrow> c_int \<Rightarrow> DataGrid" where
  "DataGrid_pow A p =
     \<lparr>DataGrid.s = DataGrid.s A * p, n_theta = n_theta A, n_phi = n_phi A,
      data = map (\<lambda>z. z powi sint p) (DataGrid.data A)\<rparr>"

section \<open>Modes\<close>

text \<open>The private data of \<^verbatim>\<open>class Modes\<close>.\<close>

record Modes =
  s :: c_int
  ellMax :: c_int
  data :: "complex list"





text \<open>The accessors \<^verbatim>\<open>size()\<close>, \<^verbatim>\<open>Spin()\<close> and \<^verbatim>\<open>EllMax()\<close>.\<close>

definition Modes_size :: "Modes \<Rightarrow> c_uint" where
  "Modes_size m = word_of_nat (length (Modes.data m))"

definition Modes_Spin :: "Modes \<Rightarrow> c_int" where
  "Modes_Spin m = Modes.s m"











section \<open>SliceOfScri\<close>

text \<open>
  \<^verbatim>\<open>template <class D> class SliceOfScri\<close> holds seven objects of type \<^verbatim>\<open>D\<close>.
\<close>

record 'd SliceOfScri =
  psi0 :: 'd
  psi1 :: 'd
  psi2 :: 'd
  psi3 :: 'd
  psi4 :: 'd
  sigma :: 'd
  sigmadot :: 'd

text \<open>
  \<^verbatim>\<open>operator[](const unsigned int i)\<close>.  The const and the non-const overload have the
  same chain of comparisons; the model returns the selected field or the exception.
\<close>

definition SliceOfScri_index :: "'d SliceOfScri \<Rightarrow> c_uint \<Rightarrow> error + 'd" where
  "SliceOfScri_index S i =
     (if i = 0 then Inr (psi0 S)
      else if i = 1 then Inr (psi1 S)
      else if i = 2 then Inr (psi2 S)
      else if i = 3 then Inr (psi3 S)
      else if i = 4 then Inr (psi4 S)
      else if i = 5 then Inr (sigma S)
      else if i = 6 then Inr (sigmadot S)
      else Inl GWFrames_IndexOutOfBounds)"

section \<open>SuperMomenta\<close>

text \<open>The private data of \<^verbatim>\<open>class SuperMomenta\<close>.\<close>

record SuperMomenta =
  t :: "real list"
  Psi :: "Modes list"

text \<open>
  \<^verbatim>\<open>SuperMomenta(const std::vector<double>& T, const std::vector<Modes>& psi)
  : t(T), Psi(psi) { }\<close>.  The body is empty: nothing is compared and nothing is thrown.
\<close>

definition SuperMomenta_of :: "real list \<Rightarrow> Modes list \<Rightarrow> error + SuperMomenta" where
  "SuperMomenta_of T psi = Inr \<lparr>t = T, Psi = psi\<rparr>"

text \<open>
  \<^verbatim>\<open>inline int NTimes() const { return t.size(); }\<close>: the size is converted to
  \<^verbatim>\<open>int\<close>.
\<close>

definition NTimes :: "SuperMomenta \<Rightarrow> c_int" where
  "NTimes S = word_of_nat (length (SuperMomenta.t S))"

text \<open>
  Modelled from the spec: the body of \<^verbatim>\<open>SuperMomenta::MoreschiIteration\<close> is missing;
  the header declares
  \<^verbatim>\<open>void MoreschiIteration(GWFrames::Modes& OneOverK, GWFrames::Modes& delta) const\<close>.
  Section 4.4 of the specification: given the current pair, a call computes the
  transformed supermomentum, extracts its low moments and solves a small linear system
  for the corrected pair; both arguments are updated by reference and there is no
  separate return value.  The state of a call is the receiver and the two objects the
  arguments refer to.  The numerical steps are parameters: \<open>transform\<close> is
  \<^verbatim>\<open>BMSTransform\<close> of the same class, \<open>solve\<close> the extraction of the moments with the
  linear solve; either may fail (section 4.1, division by a zero sample).
\<close>

record Moreschi_state =
  self :: SuperMomenta
  OneOverK :: Modes
  delta :: Modes

definition MoreschiIteration ::
  "(SuperMomenta \<Rightarrow> Modes \<Rightarrow> Modes \<Rightarrow> error + Modes)
     \<Rightarrow> (Modes \<Rightarrow> Modes \<Rightarrow> Modes \<Rightarrow> error + Modes \<times> Modes)
     \<Rightarrow> Moreschi_state \<Rightarrow> error + unit \<times> Moreschi_state" where
  "MoreschiIteration transform solve st =
     (case transform (self st) (OneOverK st) (delta st) of
        Inl e \<Rightarrow> Inl e
      | Inr Psi' \<Rightarrow>
          (case solve Psi' (OneOverK st) (delta st) of
             Inl e \<Rightarrow> Inl e
           | Inr (K', d') \<Rightarrow> Inr ((), st\<lparr>OneOverK := K', delta := d'\<rparr>)))"

section \<open>WaveformAtAPointFT\<close>

text \<open>
  The data members of \<^verbatim>\<open>WaveformAtAPointFT\<close>, as the constructors and member functions
  use them.
\<close>

record WaveformAtAPointFT =
  mDt :: real
  mVartheta :: real
  mVarphi :: real
  mNormalized :: bool
  mFreqs :: "real list"
  mRealF :: "real list"
  mImagF :: "real list"

text \<open>
  The disabled constructor, taking \<^verbatim>\<open>WindowNCycles\<close> and the two angles.  Its member
  initialisers run, then the body throws unconditionally, so no object results.  The
  waveform argument has a type that is declared elsewhere; it is a type parameter here.
\<close>

definition WaveformAtAPointFT_old ::
  "'w \<Rightarrow> real \<Rightarrow> real \<Rightarrow> real \<Rightarrow> real \<Rightarrow> c_uint \<Rightarrow> real \<Rightarrow> real \<Rightarrow> c_uint
     \<Rightarrow> error + WaveformAtAPointFT" where
  "WaveformAtAPointFT_old W Dt Vartheta Varphi TotalMass WindowNCycles
       DetectorResponseAmp DetectorResponsePhase ExtraZeroPadPowers =
     Inl GWFrames_NotYetImplemented"

text \<open>
  Modelled from the spec: the class declaration of \<^verbatim>\<open>WaveformAtAPointFT\<close> is missing,
  and the specification leaves this class to its callers.  The inline accessors follow
  their uses in the member functions: the constructor sizes \<^verbatim>\<open>mRealF\<close> and
  \<^verbatim>\<open>mImagF\<close> by \<^verbatim>\<open>mFreqs.size()\<close>, \<^verbatim>\<open>F(1)-F(0)\<close> is the frequency step, and
  \<^verbatim>\<open>Re(i)\<close>, \<^verbatim>\<open>Im(i)\<close> are the two parts of bin \<open>i\<close>.  A read past the end of a
  vector is \<open>Out_of_range\<close>.
\<close>

definition nth_checked :: "'a list \<Rightarrow> nat \<Rightarrow> error + 'a" where
  "nth_checked xs i = (if i < length xs then Inr (xs ! i) else Inl Out_of_range)"

definition NFreq :: "WaveformAtAPointFT \<Rightarrow> nat" where
  "NFreq W = length (mFreqs W)"

definition F :: "WaveformAtAPointFT \<Rightarrow> nat \<Rightarrow> error + real" where
  "F W f = nth_checked (mFreqs W) f"

definition Re_FT :: "WaveformAtAPointFT \<Rightarrow> nat \<Rightarrow> error + real" where
  "Re_FT W i = nth_checked (mRealF W) i"

definition Im_FT :: "WaveformAtAPointFT \<Rightarrow> nat \<Rightarrow> error + real" where
  "Im_FT W i = nth_checked (mImagF W) i"

definition IsNormalized :: "WaveformAtAPointFT \<Rightarrow> bool" where
  "IsNormalized W = mNormalized W"

text \<open>
  \<^verbatim>\<open>double SNR(const std::vector<double>& InversePSD) const\<close>: the size check, the loop
  that accumulates \<^verbatim>\<open>SNRSquared\<close>, the scaling by four times the frequency step, and
  the square root.
\<close>

function SNR_loop :: "WaveformAtAPointFT \<Rightarrow> real list \<Rightarrow> nat \<Rightarrow> real \<Rightarrow> error + real" where
  "SNR_loop W InversePSD i SNRSquared =
     (if i < NFreq W then
        (if i < length (mRealF W) \<and> i < length (mImagF W) \<and> i < length InversePSD
         then SNR_loop W InversePSD (Suc i)
                (SNRSquared
                  + (mRealF W ! i * mRealF W ! i + mImagF W ! i * mImagF W ! i) * InversePSD ! i)
         else Inl Out_of_range)
      else Inr SNRSquared)"
  by pat_completeness auto
termination
  by (relation "measure (\<lambda>(W, InversePSD, i, SNRSquared). NFreq W - i)") auto

declare SNR_loop.simps [simp del]

definition SNR :: "WaveformAtAPointFT \<Rightarrow> real list \<Rightarrow> error + real" where
  "SNR W InversePSD =
     (if NFreq W \<noteq> length InversePSD then Inl GWFrames_VectorSizeMismatch
      else
        case SNR_loop W InversePSD 0 0 of
          Inl e \<Rightarrow> Inl e
        | Inr SNRSquared \<Rightarrow>
            (case F W 1 of
               Inl e \<Rightarrow> Inl e
             | Inr f1 \<Rightarrow>
                 (case F W 0 of
                    Inl e \<Rightarrow> Inl e
                  | Inr f0 \<Rightarrow> Inr (sqrt (4 * (f1 - f0) * SNRSquared)))))"

text \<open>
  \<^verbatim>\<open>WaveformAtAPointFT& Normalize(const vector<double>& InversePSD)\<close>: an object that
  is already normalised is returned at once; otherwise every bin is divided by the
  signal-to-noise ratio and the flag is set.  The division is the one of the real
  numbers; what floating point does with a ratio of zero is outside the model.
\<close>

function Normalize_loop :: "real \<Rightarrow> nat \<Rightarrow> WaveformAtAPointFT \<Rightarrow> error + WaveformAtAPointFT" where
  "Normalize_loop snr i W =
     (if i < length (mRealF W) then
        (if i < length (mImagF W)
         then Normalize_loop snr (Suc i)
                (W\<lparr>mRealF := (mRealF W)[i := mRealF W ! i / snr],
                   mImagF := (mImagF W)[i := mImagF W ! i / snr]\<rparr>)
         else Inl Out_of_range)
      else Inr W)"
  by pat_completeness auto
termination
  by (relation "measure (\<lambda>(snr, i, W). length (mRealF W) - i)") auto

declare Normalize_loop.simps [simp del]

definition Normalize :: "WaveformAtAPointFT \<Rightarrow> real list \<Rightarrow> error + WaveformAtAPointFT" where
  "Normalize W InversePSD =
     (if mNormalized W then Inr W
      else
        case SNR W InversePSD of
          Inl e \<Rightarrow> Inl e
        | Inr snr \<Rightarrow>
            (case Normalize_loop snr 0 W of
               Inl e \<Rightarrow> Inl e
             | Inr W' \<Rightarrow> Inr (W'\<lparr>mNormalized := True\<rparr>)))"

text \<open>
  \<^verbatim>\<open>WaveformAtAPointFT& ZeroAbove(const double Frequency)\<close>: the loop over the bins.
\<close>

function ZeroAbove_loop :: "real \<Rightarrow> nat \<Rightarrow> WaveformAtAPointFT \<Rightarrow> error + WaveformAtAPointFT" where
  "ZeroAbove_loop Frequency f W =
     (if f < NFreq W then
        (if \<bar>mFreqs W ! f\<bar> > Frequency then
           (if f < length (mRealF W) \<and> f < length (mImagF W)
            then ZeroAbove_loop Frequency (Suc f)
                   (W\<lparr>mRealF := (mRealF W)[f := 0], mImagF := (mImagF W)[f := 0]\<rparr>)
            else Inl Out_of_range)
         else ZeroAbove_loop Frequency (Suc f) W)
      else Inr W)"
  by pat_completeness auto
termination
  by (relation "measure (\<lambda>(Frequency, f, W). NFreq W - f)") (auto simp: NFreq_def)

declare ZeroAbove_loop.simps [simp del]

definition ZeroAbove :: "WaveformAtAPointFT \<Rightarrow> real \<Rightarrow> error + WaveformAtAPointFT" where
  "ZeroAbove W Frequency = ZeroAbove_loop Frequency 0 W"

text \<open>
  The sizes that the constructor of the class establishes: one real and one imaginary
  part per stored frequency.
\<close>

definition FT_sized :: "WaveformAtAPointFT \<Rightarrow> bool" where
  "FT_sized W \<longleftrightarrow> length (mRealF W) = NFreq W \<and> length (mImagF W) = NFreq W"

section \<open>Properties of the integer square root\<close>

lemma sqrt_upto_le: "sqrt_upto n k * sqrt_upto n k \<le> n"
  by (induction k) auto

lemma sqrt_upto_bound: "sqrt_upto n k \<le> k"
  by (induction k) auto

lemma sqrt_upto_max: "r \<le> k \<Longrightarrow> r * r \<le> n \<Longrightarrow> r \<le> sqrt_upto n k"
proof (induction k)
  case 0
  then show ?case by simp
next
  case (Suc k)
  show ?case
  proof (cases "Suc k * Suc k \<le> n")
    case True
    with Suc.prems show ?thesis by simp
  next
    case False
    with Suc.prems have "r \<noteq> Suc k" by auto
    with Suc.prems have "r \<le> k" by simp
    with Suc.IH Suc.prems False show ?thesis by simp
  qed
qed

lemma floor_sqrt_lower: "floor_sqrt n * floor_sqrt n \<le> n"
  by (simp add: floor_sqrt_def sqrt_upto_le)

lemma floor_sqrt_upper: "n < Suc (floor_sqrt n) * Suc (floor_sqrt n)"
proof (rule ccontr)
  assume "\<not> n < Suc (floor_sqrt n) * Suc (floor_sqrt n)"
  then have sq: "Suc (floor_sqrt n) * Suc (floor_sqrt n) \<le> n" by simp
  have "Suc (floor_sqrt n) \<le> Suc (floor_sqrt n) * Suc (floor_sqrt n)" by simp
  with sq have "Suc (floor_sqrt n) \<le> n" by linarith
  from sqrt_upto_max [OF this sq] show False
    by (simp add: floor_sqrt_def)
qed

lemma floor_sqrt_unique:
  assumes "r * r \<le> n" and "n < Suc r * Suc r"
  shows "floor_sqrt n = r"
proof (rule ccontr)
  assume ne: "floor_sqrt n \<noteq> r"
  let ?q = "floor_sqrt n"
  show False
  proof (cases "?q < r")
    case True
    then have "Suc ?q \<le> r" by simp
    then have "Suc ?q * Suc ?q \<le> r * r" by (simp only: mult_le_mono)
    with assms(1) floor_sqrt_upper [of n] show False by linarith
  next
    case False
    with ne have "Suc r \<le> ?q" by simp
    then have "Suc r * Suc r \<le> ?q * ?q" by (simp only: mult_le_mono)
    with assms(2) floor_sqrt_lower [of n] show False by linarith
  qed
qed

lemma floor_sqrt_square: "floor_sqrt (k * k) = k"
  by (rule floor_sqrt_unique) simp_all

lemma floor_sqrt_is_floor: "int (floor_sqrt n) = \<lfloor>sqrt (real n)\<rfloor>"
proof -
  let ?r = "floor_sqrt n"
  have lo: "real ?r \<le> sqrt (real n)"
  proof (rule real_le_rsqrt)
    have "real (?r * ?r) \<le> real n"
      using floor_sqrt_lower [of n] by (simp only: of_nat_le_iff)
    then show "(real ?r)\<^sup>2 \<le> real n" by (simp add: power2_eq_square)
  qed
  have hi: "sqrt (real n) < real ?r + 1"
  proof (rule real_less_lsqrt)
    have "real n < real (Suc ?r * Suc ?r)"
      using floor_sqrt_upper [of n] by (simp only: of_nat_less_iff)
    then show "real n < (real ?r + 1)\<^sup>2" by (simp add: power2_eq_square algebra_simps)
  qed simp
  from lo hi have "\<lfloor>sqrt (real n)\<rfloor> = int ?r"
    by (intro floor_unique) simp_all
  then show ?thesis by simp
qed

section \<open>Words that hold small numbers\<close>

lemma sint_word_of_nat:
  assumes "n < 2 ^ 31"
  shows "sint (word_of_nat n :: c_int) = int n"
proof -
  have "sint (word_of_nat n :: c_int) = sint (word_of_int (int n) :: c_int)"
    by simp
  also have "\<dots> = signed_take_bit (LENGTH(32) - 1) (int n)"
    by (rule sint_sbintrunc')
  also have "\<dots> = int n"
    using assms by (intro signed_take_bit_int_eq_self) simp_all
  finally show ?thesis .
qed

lemma sint_floor_sqrt:
  assumes "0 \<le> sint (sz :: c_int)"
  shows "sint (word_of_nat (floor_sqrt (nat (sint sz))) :: c_int) = int (floor_sqrt (nat (sint sz)))"
proof -
  let ?n = "nat (sint sz)"
  have "sint sz < 2 ^ 31"
    using sint_lt [of sz] by simp
  then have n: "?n < 2 ^ 31" using assms by (simp add: nat_less_iff)
  have "floor_sqrt ?n \<le> floor_sqrt ?n * floor_sqrt ?n"
    by (cases "floor_sqrt ?n") simp_all
  also have "\<dots> \<le> ?n" by (rule floor_sqrt_lower)
  finally have "floor_sqrt ?n < 2 ^ 31" using n by linarith
  then show ?thesis
    by (rule sint_word_of_nat)
qed

lemma DataGrid_of_size_inv:
  assumes "DataGrid_of_size sz = Inr g"
  shows "DataGrid_inv g \<longleftrightarrow> (\<exists>k. sint sz = k * k)"
proof -
  let ?n = "nat (sint sz)"
  let ?r = "floor_sqrt ?n"
  from assms have nonneg: "0 \<le> sint sz"
    by (simp add: DataGrid_of_size_def split: if_splits)
  with assms have g: "g = \<lparr>DataGrid.s = 0, n_theta = word_of_nat ?r, n_phi = word_of_nat ?r,
      data = replicate ?n 0\<rparr>"
    by (simp add: DataGrid_of_size_def)
  have inv: "DataGrid_inv g \<longleftrightarrow> sint sz = int ?r * int ?r"
    using nonneg by (simp add: g DataGrid_inv_def N_theta_def N_phi_def sint_floor_sqrt)
  show ?thesis
  proof
    assume "DataGrid_inv g"
    with inv show "\<exists>k. sint sz = k * k" by blast
  next
    assume "\<exists>k. sint sz = k * k"
    then obtain k where k: "sint sz = k * k" ..
    then have "?n = nat \<bar>k\<bar> * nat \<bar>k\<bar>"
      by (simp add: nat_mult_distrib [symmetric] abs_mult_self_eq)
    then have "?r = nat \<bar>k\<bar>"
      by (simp add: floor_sqrt_square)
    then have "int ?r * int ?r = k * k" by simp
    with inv k show "DataGrid_inv g" by simp
  qed
qed

section \<open>The shape of a DataGrid\<close>

lemma DataGrid_of_data_inv:
  "DataGrid_of_data Spin Ntheta Nphi D = Inr g \<Longrightarrow> DataGrid_inv g"
  by (auto simp: DataGrid_of_data_def DataGrid_inv_def N_theta_def N_phi_def split: if_splits)

lemma DataGrid_setters_inv:
  "DataGrid_inv (DataGrid_copy A) \<longleftrightarrow> DataGrid_inv A"
  "DataGrid_inv (DataGrid_SetSpin A ess) \<longleftrightarrow> DataGrid_inv A"
  "DataGrid_inv (SetNTheta A N) \<longleftrightarrow> int (length (DataGrid.data A)) = sint N * sint (N_phi A)"
  "DataGrid_inv (SetNPhi A N) \<longleftrightarrow> int (length (DataGrid.data A)) = sint (N_theta A) * sint N"
  by (simp_all add: DataGrid_inv_def DataGrid_copy_def DataGrid_SetSpin_def SetNTheta_def
      SetNPhi_def N_theta_def N_phi_def)

lemma DataGrid_times_inv:
  "DataGrid_inv A \<Longrightarrow> DataGrid_times A B = Inr C \<Longrightarrow> DataGrid_inv C"
  by (auto simp: DataGrid_times_def DataGrid_inv_def same_shape_def N_theta_def N_phi_def
      split: if_splits)

lemma DataGrid_divide_inv:
  "DataGrid_inv A \<Longrightarrow> DataGrid_divide A B = Inr C \<Longrightarrow> DataGrid_inv C"
  by (auto simp: DataGrid_divide_def DataGrid_inv_def same_shape_def N_theta_def N_phi_def
      split: if_splits)

lemma DataGrid_plus_inv:
  "DataGrid_inv A \<Longrightarrow> DataGrid_plus A B = Inr C \<Longrightarrow> DataGrid_inv C"
  by (auto simp: DataGrid_plus_def DataGrid_inv_def same_shape_def N_theta_def N_phi_def
      split: if_splits)

lemma DataGrid_minus_inv:
  "DataGrid_inv A \<Longrightarrow> DataGrid_minus A B = Inr C \<Longrightarrow> DataGrid_inv C"
  by (auto simp: DataGrid_minus_def DataGrid_inv_def same_shape_def N_theta_def N_phi_def
      split: if_splits)

lemma DataGrid_pow_inv:
  "DataGrid_inv A \<Longrightarrow> DataGrid_inv (DataGrid_pow A p)"
  by (simp add: DataGrid_pow_def DataGrid_inv_def N_theta_def N_phi_def)

text \<open>
  C5, as amended.  \<^verbatim>\<open>DataGrid(size)\<close> stores \<open>size\<close> samples and sets both
  dimensions to the integer part of the square root of \<open>size\<close>, so the shape invariant
  holds after it exactly when \<open>size\<close> is a perfect square.  Copy construction and
  \<^verbatim>\<open>SetSpin\<close> keep the invariant.  \<^verbatim>\<open>SetNTheta\<close> and \<^verbatim>\<open>SetNPhi\<close> overwrite one
  dimension and leave the samples alone, so the invariant holds after them exactly when
  the new dimension times the other one is the sample count.  Construction from spin,
  dimensions and data and the arithmetic operators, as the specification describes them,
  yield grids that satisfy the invariant.
\<close>

theorem DataGrid_shape_operations:
  "(DataGrid_of_size sz = Inr g \<longrightarrow> (DataGrid_inv g \<longleftrightarrow> (\<exists>k. sint sz = k * k))) \<and>
   (DataGrid_inv (DataGrid_copy A) \<longleftrightarrow> DataGrid_inv A) \<and>
   (DataGrid_inv (DataGrid_SetSpin A ess) \<longleftrightarrow> DataGrid_inv A) \<and>
   (DataGrid_inv (SetNTheta A N) \<longleftrightarrow>
      int (length (DataGrid.data A)) = sint N * sint (N_phi A)) \<and>
   (DataGrid_inv (SetNPhi A N) \<longleftrightarrow>
      int (length (DataGrid.data A)) = sint (N_theta A) * sint N) \<and>
   (DataGrid_of_data Spin Ntheta Nphi D = Inr g' \<longrightarrow> DataGrid_inv g') \<and>
   (DataGrid_inv A \<and> DataGrid_inv B \<longrightarrow>
      (\<forall>C. DataGrid_times A B = Inr C \<or> DataGrid_divide A B = Inr C \<or>
           DataGrid_plus A B = Inr C \<or> DataGrid_minus A B = Inr C \<longrightarrow> DataGrid_inv C) \<and>
      DataGrid_inv (DataGrid_pow A p))"
  using DataGrid_of_size_inv [of sz g] DataGrid_setters_inv [of A] DataGrid_of_data_inv [of Spin Ntheta Nphi D g']
    DataGrid_times_inv [of A B] DataGrid_divide_inv [of A B] DataGrid_plus_inv [of A B]
    DataGrid_minus_inv [of A B] DataGrid_pow_inv [of A p]
  by blast

lemma floor_sqrt_2: "floor_sqrt 2 = 1"
  by (simp add: floor_sqrt_def eval_nat_numeral)

lemma floor_sqrt_4: "floor_sqrt 4 = 2"
  by (simp add: floor_sqrt_def eval_nat_numeral)

text \<open>
  C5 as stated fails: \<^verbatim>\<open>DataGrid(2)\<close> holds two samples on a grid of one by one, and
  \<^verbatim>\<open>SetNTheta(3)\<close> on the two by two grid \<^verbatim>\<open>DataGrid(4)\<close> leaves four samples on a grid
  of three by two.
\<close>

theorem DataGrid_shape_counterexample:
  "DataGrid_of_size 2 = Inr \<lparr>DataGrid.s = 0, n_theta = 1, n_phi = 1, data = [0, 0]\<rparr> \<and>
   \<not> DataGrid_inv \<lparr>DataGrid.s = 0, n_theta = 1, n_phi = 1, data = [0, 0]\<rparr> \<and>
   DataGrid_of_size 4 = Inr \<lparr>DataGrid.s = 0, n_theta = 2, n_phi = 2, data = [0, 0, 0, 0]\<rparr> \<and>
   DataGrid_inv \<lparr>DataGrid.s = 0, n_theta = 2, n_phi = 2, data = [0, 0, 0, 0]\<rparr> \<and>
   \<not> DataGrid_inv (SetNTheta \<lparr>DataGrid.s = 0, n_theta = 2, n_phi = 2, data = [0, 0, 0, 0]\<rparr> 3)"
proof -
  have rep: "replicate 2 (0 :: complex) = [0, 0]" "replicate 4 (0 :: complex) = [0, 0, 0, 0]"
    by (simp_all add: eval_nat_numeral)
  have two: "DataGrid_of_size 2 = Inr \<lparr>DataGrid.s = 0, n_theta = 1, n_phi = 1, data = [0, 0]\<rparr>"
    by (simp add: DataGrid_of_size_def floor_sqrt_2 rep)
  have four: "DataGrid_of_size 4
      = Inr \<lparr>DataGrid.s = 0, n_theta = 2, n_phi = 2, data = [0, 0, 0, 0]\<rparr>"
    by (simp add: DataGrid_of_size_def floor_sqrt_4 rep)
  have inv: "\<not> DataGrid_inv \<lparr>DataGrid.s = 0, n_theta = 1, n_phi = 1, data = [0, 0]\<rparr>"
    "DataGrid_inv \<lparr>DataGrid.s = 0, n_theta = 2, n_phi = 2, data = [0, 0, 0, 0]\<rparr>"
    "\<not> DataGrid_inv
        (SetNTheta \<lparr>DataGrid.s = 0, n_theta = 2, n_phi = 2, data = [0, 0, 0, 0]\<rparr> 3)"
    by (simp_all add: DataGrid_inv_def SetNTheta_def N_theta_def N_phi_def)
  from two four inv show ?thesis by simp
qed

theorem DataGrid_shape_operations_witness:
  "DataGrid_of_size 4 = Inr \<lparr>DataGrid.s = 0, n_theta = 2, n_phi = 2, data = [0, 0, 0, 0]\<rparr> \<and>
   (\<exists>k. sint (4 :: c_int) = k * k) \<and>
   DataGrid_inv \<lparr>DataGrid.s = 0, n_theta = 2, n_phi = 2, data = [0, 0, 0, 0]\<rparr> \<and>
   DataGrid_of_data 2 1 2 [1, \<i>] = Inr \<lparr>DataGrid.s = 2, n_theta = 1, n_phi = 2, data = [1, \<i>]\<rparr> \<and>
   DataGrid_inv \<lparr>DataGrid.s = 2, n_theta = 1, n_phi = 2, data = [1, \<i>]\<rparr> \<and>
   DataGrid_times \<lparr>DataGrid.s = 2, n_theta = 1, n_phi = 2, data = [1, \<i>]\<rparr>
       \<lparr>DataGrid.s = 2, n_theta = 1, n_phi = 2, data = [1, \<i>]\<rparr>
     = Inr \<lparr>DataGrid.s = 4, n_theta = 1, n_phi = 2, data = [1, - 1]\<rparr> \<and>
   DataGrid_inv \<lparr>DataGrid.s = 4, n_theta = 1, n_phi = 2, data = [1, - 1]\<rparr>"
proof -
  let ?g = "\<lparr>DataGrid.s = 0, n_theta = 2, n_phi = 2, data = [0, 0, 0, 0 :: complex]\<rparr>"
  let ?a = "\<lparr>DataGrid.s = 2, n_theta = 1, n_phi = 2, data = [1, \<i>]\<rparr>"
  let ?c = "\<lparr>DataGrid.s = 4, n_theta = 1, n_phi = 2, data = [1, - 1 :: complex]\<rparr>"
  have rep: "replicate 4 (0 :: complex) = [0, 0, 0, 0]"
    by (simp add: eval_nat_numeral)
  have four: "DataGrid_of_size 4 = Inr ?g"
    by (simp add: DataGrid_of_size_def floor_sqrt_4 rep)
  have sq: "\<exists>k. sint (4 :: c_int) = k * k"
    by (rule exI [of _ 2]) simp
  have a: "DataGrid_of_data 2 1 2 [1, \<i>] = Inr ?a"
    by (simp add: DataGrid_of_data_def)
  have c: "DataGrid_times ?a ?a = Inr ?c"
    by (simp add: DataGrid_times_def same_shape_def)
  note inst = DataGrid_shape_operations [where sz = 4 and g = ?g and A = ?a and B = ?a
      and Spin = 2 and Ntheta = 1 and Nphi = 2 and D = "[1, \<i>]" and g' = ?a]
  from inst four sq have "DataGrid_inv ?g" by blast
  moreover from inst a have inv_a: "DataGrid_inv ?a" by blast
  moreover from inst inv_a c have "DataGrid_inv ?c" by blast
  ultimately show ?thesis using four sq a c by blast
qed

section \<open>The shape of Modes\<close>










section \<open>The integer power of Modes\<close>




section \<open>Indexed access to a slice\<close>

lemma SliceOfScri_index_ge7:
  assumes "7 \<le> i"
  shows "SliceOfScri_index S i = Inl GWFrames_IndexOutOfBounds"
proof -
  from assms have "unat i \<ge> 7"
    by (simp add: word_le_nat_alt)
  then have "i \<noteq> 0" "i \<noteq> 1" "i \<noteq> 2" "i \<noteq> 3" "i \<noteq> 4" "i \<noteq> 5" "i \<noteq> 6"
    by auto
  then show ?thesis
    by (simp add: SliceOfScri_index_def)
qed

text \<open>
  C4. For every slice and index, \<^verbatim>\<open>operator[]\<close> returns \<open>psi0\<close>, \<open>psi1\<close>, \<open>psi2\<close>,
  \<open>psi3\<close>, \<open>psi4\<close>, \<open>sigma\<close>, \<open>sigmadot\<close> for the indices 0 to 6, and throws
  \<^verbatim>\<open>GWFrames_IndexOutOfBounds\<close> for every index from 7 on.
\<close>

theorem SliceOfScri_index_spec:
  "SliceOfScri_index S 0 = Inr (psi0 S) \<and>
   SliceOfScri_index S 1 = Inr (psi1 S) \<and>
   SliceOfScri_index S 2 = Inr (psi2 S) \<and>
   SliceOfScri_index S 3 = Inr (psi3 S) \<and>
   SliceOfScri_index S 4 = Inr (psi4 S) \<and>
   SliceOfScri_index S 5 = Inr (sigma S) \<and>
   SliceOfScri_index S 6 = Inr (sigmadot S) \<and>
   (\<forall>i. 7 \<le> i \<longrightarrow> SliceOfScri_index S i = Inl GWFrames_IndexOutOfBounds)"
proof -
  have low: "SliceOfScri_index S 0 = Inr (psi0 S)" "SliceOfScri_index S 1 = Inr (psi1 S)"
    "SliceOfScri_index S 2 = Inr (psi2 S)" "SliceOfScri_index S 3 = Inr (psi3 S)"
    "SliceOfScri_index S 4 = Inr (psi4 S)" "SliceOfScri_index S 5 = Inr (sigma S)"
    "SliceOfScri_index S 6 = Inr (sigmadot S)"
    by (simp_all add: SliceOfScri_index_def)
  have high: "\<forall>i. 7 \<le> i \<longrightarrow> SliceOfScri_index S i = Inl GWFrames_IndexOutOfBounds"
    using SliceOfScri_index_ge7 by blast
  from low high show ?thesis by blast
qed

theorem SliceOfScri_index_spec_witness:
  "(7 :: c_uint) \<le> 7 \<and>
   SliceOfScri_index
     \<lparr>psi0 = 10, psi1 = 11, psi2 = 12, psi3 = 13, psi4 = 14, sigma = 15, sigmadot = 16 :: nat\<rparr> 7
     = Inl GWFrames_IndexOutOfBounds \<and>
   SliceOfScri_index
     \<lparr>psi0 = 10, psi1 = 11, psi2 = 12, psi3 = 13, psi4 = 14, sigma = 15, sigmadot = 16 :: nat\<rparr> 5
     = Inr 15"
  using SliceOfScri_index_spec
    [of "\<lparr>psi0 = 10, psi1 = 11, psi2 = 12, psi3 = 13, psi4 = 14, sigma = 15, sigmadot = 16 :: nat\<rparr>"]
  by simp

section \<open>The iteration step and the constructor of SuperMomenta\<close>

text \<open>
  C3. \<^verbatim>\<open>MoreschiIteration\<close> returns nothing; a call that completes has changed the
  two objects its arguments refer to and nothing else: the receiver, with its time array
  and its supermomentum series, is as before.
\<close>

theorem MoreschiIteration_frame:
  assumes "MoreschiIteration transform solve st = Inr (r, st')"
  shows "r = () \<and> self st' = self st \<and> (\<exists>K' d'. st' = st\<lparr>OneOverK := K', delta := d'\<rparr>)"
  using assms
  by (auto simp: MoreschiIteration_def split: sum.splits prod.splits)

theorem MoreschiIteration_frame_witness:
  "MoreschiIteration (\<lambda>S K d. Inr K) (\<lambda>P K d. Inr (d, K))
     \<lparr>self = \<lparr>t = [0], Psi = [\<lparr>Modes.s = 0, ellMax = 0, data = [1]\<rparr>]\<rparr>,
      OneOverK = \<lparr>Modes.s = 0, ellMax = 0, data = [2]\<rparr>,
      delta = \<lparr>Modes.s = 0, ellMax = 0, data = [3]\<rparr>\<rparr>
   = Inr ((),
     \<lparr>self = \<lparr>t = [0], Psi = [\<lparr>Modes.s = 0, ellMax = 0, data = [1]\<rparr>]\<rparr>,
      OneOverK = \<lparr>Modes.s = 0, ellMax = 0, data = [3]\<rparr>,
      delta = \<lparr>Modes.s = 0, ellMax = 0, data = [2]\<rparr>\<rparr>) \<and>
   self \<lparr>self = \<lparr>t = [0], Psi = [\<lparr>Modes.s = 0, ellMax = 0, data = [1]\<rparr>]\<rparr>,
      OneOverK = \<lparr>Modes.s = 0, ellMax = 0, data = [3]\<rparr>,
      delta = \<lparr>Modes.s = 0, ellMax = 0, data = [2]\<rparr>\<rparr>
   = \<lparr>t = [0], Psi = [\<lparr>Modes.s = 0, ellMax = 0, data = [1]\<rparr>]\<rparr>"
proof -
  let ?st = "\<lparr>self = \<lparr>t = [0], Psi = [\<lparr>Modes.s = 0, ellMax = 0, data = [1]\<rparr>]\<rparr>,
      OneOverK = \<lparr>Modes.s = 0, ellMax = 0, data = [2]\<rparr>,
      delta = \<lparr>Modes.s = 0, ellMax = 0, data = [3]\<rparr>\<rparr>"
  let ?st' = "\<lparr>self = \<lparr>t = [0], Psi = [\<lparr>Modes.s = 0, ellMax = 0, data = [1]\<rparr>]\<rparr>,
      OneOverK = \<lparr>Modes.s = 0, ellMax = 0, data = [3]\<rparr>,
      delta = \<lparr>Modes.s = 0, ellMax = 0, data = [2]\<rparr>\<rparr>"
  have run: "MoreschiIteration (\<lambda>S K d. Inr K) (\<lambda>P K d. Inr (d, K)) ?st = Inr ((), ?st')"
    by (simp add: MoreschiIteration_def)
  from MoreschiIteration_frame [OF run] run show ?thesis by simp
qed

text \<open>
  C9. The constructor from a time vector and a vector of mode fields compares nothing:
  it succeeds for every pair of vectors, whatever their sizes, and \<^verbatim>\<open>NTimes()\<close> then
  returns the size of the time vector, converted to \<^verbatim>\<open>int\<close>, whatever the number of
  mode fields.
\<close>

theorem SuperMomenta_of_unchecked:
  "SuperMomenta_of T psi = Inr \<lparr>t = T, Psi = psi\<rparr> \<and>
   NTimes \<lparr>t = T, Psi = psi\<rparr> = word_of_nat (length T) \<and>
   (length T < 2 ^ 31 \<longrightarrow> sint (NTimes \<lparr>t = T, Psi = psi\<rparr>) = int (length T))"
  by (simp add: SuperMomenta_of_def NTimes_def sint_word_of_nat)

theorem SuperMomenta_of_unchecked_witness:
  "length [0, 1, 2 :: real] < 2 ^ 31 \<and>
   length [0, 1, 2 :: real] \<noteq> length ([] :: Modes list) \<and>
   SuperMomenta_of [0, 1, 2] [] = Inr \<lparr>t = [0, 1, 2], Psi = []\<rparr> \<and>
   sint (NTimes \<lparr>t = [0, 1, 2], Psi = []\<rparr>) = 3"
  using SuperMomenta_of_unchecked [of "[0, 1, 2]" "[]"]
  by simp

section \<open>The disabled constructor\<close>

text \<open>
  C7. For every combination of arguments the disabled constructor of
  \<^verbatim>\<open>WaveformAtAPointFT\<close> throws \<^verbatim>\<open>GWFrames_NotYetImplemented\<close>; it never yields an
  object.
\<close>

theorem WaveformAtAPointFT_old_throws:
  "WaveformAtAPointFT_old W Dt Vartheta Varphi TotalMass WindowNCycles
       DetectorResponseAmp DetectorResponsePhase ExtraZeroPadPowers
     = Inl GWFrames_NotYetImplemented \<and>
   (\<forall>obj. WaveformAtAPointFT_old W Dt Vartheta Varphi TotalMass WindowNCycles
       DetectorResponseAmp DetectorResponsePhase ExtraZeroPadPowers \<noteq> Inr obj)"
  by (simp add: WaveformAtAPointFT_old_def)

section \<open>Normalize and ZeroAbove\<close>

lemma Normalize_sets_flag:
  assumes "Normalize W0 P0 = Inr W"
  shows "mNormalized W"
proof (cases "mNormalized W0")
  case True
  with assms show ?thesis by (simp add: Normalize_def)
next
  case False
  with assms obtain W' where "W = W'\<lparr>mNormalized := True\<rparr>"
    by (auto simp: Normalize_def split: sum.splits)
  then show ?thesis by simp
qed


lemma Normalize_normalized: "mNormalized W \<Longrightarrow> Normalize W InversePSD = Inr W"
  by (simp add: Normalize_def)

lemma SNR_size_check:
  "NFreq W \<noteq> length InversePSD \<Longrightarrow> SNR W InversePSD = Inl GWFrames_VectorSizeMismatch"
  by (simp add: SNR_def)

lemma Normalize_size_check:
  assumes "\<not> mNormalized W" and "NFreq W \<noteq> length InversePSD"
  shows "Normalize W InversePSD = Inl GWFrames_VectorSizeMismatch"
  using assms(1) SNR_size_check [OF assms(2)]
  by (simp add: Normalize_def)

text \<open>
  C8. On an object that is already normalised, \<^verbatim>\<open>Normalize\<close> returns the object
  unchanged for every \<^verbatim>\<open>InversePSD\<close>, of whatever size; an object on which
  \<^verbatim>\<open>Normalize\<close> has succeeded is normalised, so a second call changes nothing.  The
  size check of \<^verbatim>\<open>SNR\<close> is reached only on an object that is not normalised, where a
  wrong size throws.
\<close>

theorem Normalize_idempotent:
  "(IsNormalized W \<longrightarrow> Normalize W InversePSD = Inr W) \<and>
   (Normalize W0 P0 = Inr W \<longrightarrow> IsNormalized W \<and> Normalize W InversePSD = Inr W) \<and>
   (\<not> IsNormalized W \<and> NFreq W \<noteq> length InversePSD \<longrightarrow>
      Normalize W InversePSD = Inl GWFrames_VectorSizeMismatch)"
  unfolding IsNormalized_def
  using Normalize_sets_flag [of W0 P0 W] Normalize_normalized [of W InversePSD]
    Normalize_size_check [of W InversePSD]
  by blast

theorem Normalize_idempotent_witness:
  "IsNormalized \<lparr>mDt = 1, mVartheta = 0, mVarphi = 0, mNormalized = True,
       mFreqs = [0, 1], mRealF = [1 / 2, 0], mImagF = [0, 0]\<rparr> \<and>
   Normalize \<lparr>mDt = 1, mVartheta = 0, mVarphi = 0, mNormalized = False,
       mFreqs = [0, 1], mRealF = [1, 0], mImagF = [0, 0]\<rparr> [1, 1]
     = Inr \<lparr>mDt = 1, mVartheta = 0, mVarphi = 0, mNormalized = True,
       mFreqs = [0, 1], mRealF = [1 / 2, 0], mImagF = [0, 0]\<rparr> \<and>
   Normalize \<lparr>mDt = 1, mVartheta = 0, mVarphi = 0, mNormalized = True,
       mFreqs = [0, 1], mRealF = [1 / 2, 0], mImagF = [0, 0]\<rparr> []
     = Inr \<lparr>mDt = 1, mVartheta = 0, mVarphi = 0, mNormalized = True,
       mFreqs = [0, 1], mRealF = [1 / 2, 0], mImagF = [0, 0]\<rparr> \<and>
   Normalize \<lparr>mDt = 1, mVartheta = 0, mVarphi = 0, mNormalized = False,
       mFreqs = [0, 1], mRealF = [1, 0], mImagF = [0, 0]\<rparr> []
     = Inl GWFrames_VectorSizeMismatch"
proof -
  let ?V = "\<lparr>mDt = 1, mVartheta = 0, mVarphi = 0, mNormalized = False,
       mFreqs = [0, 1], mRealF = [1, 0], mImagF = [0, 0]\<rparr>"
  let ?W = "\<lparr>mDt = 1, mVartheta = 0, mVarphi = 0, mNormalized = True,
       mFreqs = [0, 1], mRealF = [1 / 2, 0], mImagF = [0, 0]\<rparr>"
  have snr: "SNR ?V [1, 1] = Inr 2"
    by (simp add: SNR_def SNR_loop.simps NFreq_def F_def nth_checked_def)
  have loop: "Normalize_loop 2 0 ?V = Inr (?V\<lparr>mRealF := [1 / 2, 0], mImagF := [0, 0]\<rparr>)"
    by (simp add: Normalize_loop.simps)
  have first: "Normalize ?V [1, 1] = Inr ?W"
    by (simp add: Normalize_def snr loop)
  have sizes: "\<not> IsNormalized ?V \<and> NFreq ?V \<noteq> length ([] :: real list)"
    by (simp add: IsNormalized_def NFreq_def)
  from Normalize_idempotent [of ?W "[]" ?V "[1, 1]"] first
  have "IsNormalized ?W \<and> Normalize ?W [] = Inr ?W" by blast
  moreover from Normalize_idempotent [of ?V "[]"] sizes
  have "Normalize ?V [] = Inl GWFrames_VectorSizeMismatch" by blast
  ultimately show ?thesis using first by blast
qed

lemma ZeroAbove_loop_spec:
  assumes "FT_sized W"
  shows "\<exists>re im. ZeroAbove_loop Frequency f W = Inr (W\<lparr>mRealF := re, mImagF := im\<rparr>) \<and>
     length re = length (mRealF W) \<and> length im = length (mImagF W) \<and>
     (\<forall>i < NFreq W.
        re ! i = (if f \<le> i \<and> \<bar>mFreqs W ! i\<bar> > Frequency then 0 else mRealF W ! i) \<and>
        im ! i = (if f \<le> i \<and> \<bar>mFreqs W ! i\<bar> > Frequency then 0 else mImagF W ! i))"
  using assms
proof (induction Frequency f W rule: ZeroAbove_loop.induct)
  case (1 Frequency f W)
  show ?case
  proof (cases "f < NFreq W")
    case False
    then have "ZeroAbove_loop Frequency f W = Inr (W\<lparr>mRealF := mRealF W, mImagF := mImagF W\<rparr>)"
      by (simp add: ZeroAbove_loop.simps [of Frequency f W])
    with False show ?thesis
      by (intro exI [of _ "mRealF W"] exI [of _ "mImagF W"]) simp
  next
    case inside: True
    show ?thesis
    proof (cases "\<bar>mFreqs W ! f\<bar> > Frequency")
      case above: True
      let ?W1 = "W\<lparr>mRealF := (mRealF W)[f := 0], mImagF := (mImagF W)[f := 0]\<rparr>"
      from "1.prems" inside have len: "f < length (mRealF W)" "f < length (mImagF W)"
        by (simp_all add: FT_sized_def)
      from "1.prems" have sized: "FT_sized ?W1"
        by (simp add: FT_sized_def NFreq_def)
      from "1.IH"(1) [OF inside above _ sized] len
      obtain re im where step: "ZeroAbove_loop Frequency (Suc f) ?W1 = Inr (?W1\<lparr>mRealF := re, mImagF := im\<rparr>)"
        and lre: "length re = length (mRealF ?W1)" and lim: "length im = length (mImagF ?W1)"
        and vals: "\<forall>i < NFreq ?W1.
          re ! i = (if Suc f \<le> i \<and> \<bar>mFreqs ?W1 ! i\<bar> > Frequency then 0 else mRealF ?W1 ! i) \<and>
          im ! i = (if Suc f \<le> i \<and> \<bar>mFreqs ?W1 ! i\<bar> > Frequency then 0 else mImagF ?W1 ! i)"
        by blast
      have "ZeroAbove_loop Frequency f W = ZeroAbove_loop Frequency (Suc f) ?W1"
        using inside above len by (simp add: ZeroAbove_loop.simps [of Frequency f W])
      with step have res: "ZeroAbove_loop Frequency f W = Inr (W\<lparr>mRealF := re, mImagF := im\<rparr>)"
        by simp
      have "\<forall>i < NFreq W.
          re ! i = (if f \<le> i \<and> \<bar>mFreqs W ! i\<bar> > Frequency then 0 else mRealF W ! i) \<and>
          im ! i = (if f \<le> i \<and> \<bar>mFreqs W ! i\<bar> > Frequency then 0 else mImagF W ! i)"
      proof (intro allI impI)
        fix i assume i: "i < NFreq W"
        with vals have v: "re ! i = (if Suc f \<le> i \<and> \<bar>mFreqs W ! i\<bar> > Frequency then 0
              else (mRealF W)[f := 0] ! i)"
          "im ! i = (if Suc f \<le> i \<and> \<bar>mFreqs W ! i\<bar> > Frequency then 0
              else (mImagF W)[f := 0] ! i)"
          by (simp_all add: NFreq_def)
        show "re ! i = (if f \<le> i \<and> \<bar>mFreqs W ! i\<bar> > Frequency then 0 else mRealF W ! i) \<and>
          im ! i = (if f \<le> i \<and> \<bar>mFreqs W ! i\<bar> > Frequency then 0 else mImagF W ! i)"
        proof (cases "i = f")
          case True
          with v above len show ?thesis by simp
        next
          case False
          with v show ?thesis by auto
        qed
      qed
      moreover from lre lim have "length re = length (mRealF W)" "length im = length (mImagF W)"
        by simp_all
      ultimately show ?thesis using res by blast
    next
      case below: False
      from "1.IH"(2) [OF inside below "1.prems"]
      obtain re im where step: "ZeroAbove_loop Frequency (Suc f) W = Inr (W\<lparr>mRealF := re, mImagF := im\<rparr>)"
        and lre: "length re = length (mRealF W)" and lim: "length im = length (mImagF W)"
        and vals: "\<forall>i < NFreq W.
          re ! i = (if Suc f \<le> i \<and> \<bar>mFreqs W ! i\<bar> > Frequency then 0 else mRealF W ! i) \<and>
          im ! i = (if Suc f \<le> i \<and> \<bar>mFreqs W ! i\<bar> > Frequency then 0 else mImagF W ! i)"
        by blast
      have "ZeroAbove_loop Frequency f W = ZeroAbove_loop Frequency (Suc f) W"
        using inside below by (simp add: ZeroAbove_loop.simps [of Frequency f W])
      with step have res: "ZeroAbove_loop Frequency f W = Inr (W\<lparr>mRealF := re, mImagF := im\<rparr>)"
        by simp
      have "\<forall>i < NFreq W.
          re ! i = (if f \<le> i \<and> \<bar>mFreqs W ! i\<bar> > Frequency then 0 else mRealF W ! i) \<and>
          im ! i = (if f \<le> i \<and> \<bar>mFreqs W ! i\<bar> > Frequency then 0 else mImagF W ! i)"
      proof (intro allI impI)
        fix i assume i: "i < NFreq W"
        with vals have v: "re ! i = (if Suc f \<le> i \<and> \<bar>mFreqs W ! i\<bar> > Frequency then 0
              else mRealF W ! i)"
          "im ! i = (if Suc f \<le> i \<and> \<bar>mFreqs W ! i\<bar> > Frequency then 0
              else mImagF W ! i)"
          by simp_all
        show "re ! i = (if f \<le> i \<and> \<bar>mFreqs W ! i\<bar> > Frequency then 0 else mRealF W ! i) \<and>
          im ! i = (if f \<le> i \<and> \<bar>mFreqs W ! i\<bar> > Frequency then 0 else mImagF W ! i)"
        proof (cases "i = f")
          case True
          with v below show ?thesis by simp
        next
          case False
          with v show ?thesis by auto
        qed
      qed
      with res lre lim show ?thesis by blast
    qed
  qed
qed

text \<open>
  C10. After \<^verbatim>\<open>ZeroAbove(Frequency)\<close> every bin whose frequency exceeds the
  threshold in absolute value has real and imaginary part zero, every bin whose frequency
  does not exceed it keeps its value, and the frequencies, the normalisation flag, the
  time step and the two angles are unchanged; the object is returned.
\<close>

theorem ZeroAbove_spec:
  assumes "FT_sized W"
  shows "\<exists>W'. ZeroAbove W Frequency = Inr W' \<and>
     (\<forall>f x. F W f = Inr x \<longrightarrow>
        (Frequency < \<bar>x\<bar> \<longrightarrow> Re_FT W' f = Inr 0 \<and> Im_FT W' f = Inr 0) \<and>
        (\<bar>x\<bar> \<le> Frequency \<longrightarrow> Re_FT W' f = Re_FT W f \<and> Im_FT W' f = Im_FT W f)) \<and>
     mFreqs W' = mFreqs W \<and> mNormalized W' = mNormalized W \<and> mDt W' = mDt W \<and>
     mVartheta W' = mVartheta W \<and> mVarphi W' = mVarphi W \<and>
     length (mRealF W') = length (mRealF W) \<and> length (mImagF W') = length (mImagF W)"
proof -
  from ZeroAbove_loop_spec [OF assms, of Frequency 0]
  obtain re im where res: "ZeroAbove W Frequency = Inr (W\<lparr>mRealF := re, mImagF := im\<rparr>)"
    and lre: "length re = length (mRealF W)" and lim: "length im = length (mImagF W)"
    and vals: "\<forall>i < NFreq W.
      re ! i = (if \<bar>mFreqs W ! i\<bar> > Frequency then 0 else mRealF W ! i) \<and>
      im ! i = (if \<bar>mFreqs W ! i\<bar> > Frequency then 0 else mImagF W ! i)"
    by (auto simp: ZeroAbove_def)
  let ?W' = "W\<lparr>mRealF := re, mImagF := im\<rparr>"
  have bins: "(Frequency < \<bar>x\<bar> \<longrightarrow> Re_FT ?W' f = Inr 0 \<and> Im_FT ?W' f = Inr 0) \<and>
      (\<bar>x\<bar> \<le> Frequency \<longrightarrow> Re_FT ?W' f = Re_FT W f \<and> Im_FT ?W' f = Im_FT W f)"
    if "F W f = Inr x" for f x
  proof -
    from that have f: "f < NFreq W" and x: "x = mFreqs W ! f"
      by (auto simp: F_def nth_checked_def NFreq_def split: if_splits)
    from f assms have "f < length (mRealF W)" "f < length (mImagF W)"
      by (simp_all add: FT_sized_def)
    with vals f x lre lim show ?thesis
      by (simp add: Re_FT_def Im_FT_def nth_checked_def)
  qed
  show ?thesis
  proof (intro exI [of _ ?W'] conjI)
    show "ZeroAbove W Frequency = Inr ?W'" by (rule res)
    show "\<forall>f x. F W f = Inr x \<longrightarrow>
        (Frequency < \<bar>x\<bar> \<longrightarrow> Re_FT ?W' f = Inr 0 \<and> Im_FT ?W' f = Inr 0) \<and>
        (\<bar>x\<bar> \<le> Frequency \<longrightarrow> Re_FT ?W' f = Re_FT W f \<and> Im_FT ?W' f = Im_FT W f)"
      using bins by blast
  qed (simp_all add: lre lim)
qed

theorem ZeroAbove_spec_witness:
  "FT_sized \<lparr>mDt = 1, mVartheta = 0, mVarphi = 0, mNormalized = False,
       mFreqs = [0, 1, 2], mRealF = [5, 6, 7], mImagF = [1, 2, 3]\<rparr> \<and>
   ZeroAbove \<lparr>mDt = 1, mVartheta = 0, mVarphi = 0, mNormalized = False,
       mFreqs = [0, 1, 2], mRealF = [5, 6, 7], mImagF = [1, 2, 3]\<rparr> 1
     = Inr \<lparr>mDt = 1, mVartheta = 0, mVarphi = 0, mNormalized = False,
       mFreqs = [0, 1, 2], mRealF = [5, 6, 0], mImagF = [1, 2, 0]\<rparr> \<and>
   (\<exists>W'. ZeroAbove \<lparr>mDt = 1, mVartheta = 0, mVarphi = 0, mNormalized = False,
       mFreqs = [0, 1, 2], mRealF = [5, 6, 7], mImagF = [1, 2, 3]\<rparr> 1 = Inr W' \<and>
      Re_FT W' 2 = Inr 0 \<and> Im_FT W' 2 = Inr 0 \<and> Re_FT W' 1 = Inr 6 \<and> Im_FT W' 1 = Inr 2)"
proof -
  let ?W = "\<lparr>mDt = 1, mVartheta = 0, mVarphi = 0, mNormalized = False,
       mFreqs = [0, 1, 2], mRealF = [5, 6, 7], mImagF = [1, 2, 3]\<rparr>"
  have sized: "FT_sized ?W"
    by (simp add: FT_sized_def NFreq_def)
  have run: "ZeroAbove ?W 1 = Inr (?W\<lparr>mRealF := [5, 6, 0], mImagF := [1, 2, 0]\<rparr>)"
    by (simp add: ZeroAbove_def ZeroAbove_loop.simps NFreq_def)
  have F2: "F ?W 2 = Inr 2" and F1: "F ?W 1 = Inr 1"
    by (simp_all add: F_def nth_checked_def)
  have old: "Re_FT ?W 1 = Inr 6" "Im_FT ?W 1 = Inr 2"
    by (simp_all add: Re_FT_def Im_FT_def nth_checked_def)
  from ZeroAbove_spec [OF sized, of 1] obtain W' where W': "ZeroAbove ?W 1 = Inr W'"
    and bins: "\<forall>f x. F ?W f = Inr x \<longrightarrow>
        (1 < \<bar>x\<bar> \<longrightarrow> Re_FT W' f = Inr 0 \<and> Im_FT W' f = Inr 0) \<and>
        (\<bar>x\<bar> \<le> 1 \<longrightarrow> Re_FT W' f = Re_FT ?W f \<and> Im_FT W' f = Im_FT ?W f)"
    by blast
  from bins F2 have "Re_FT W' 2 = Inr 0 \<and> Im_FT W' 2 = Inr 0" by fastforce
  moreover from bins F1 old have "Re_FT W' 1 = Inr 6 \<and> Im_FT W' 1 = Inr 2" by fastforce
  ultimately have "\<exists>W'. ZeroAbove ?W 1 = Inr W' \<and>
      Re_FT W' 2 = Inr 0 \<and> Im_FT W' 2 = Inr 0 \<and> Re_FT W' 1 = Inr 6 \<and> Im_FT W' 1 = Inr 2"
    using W' by blast
  with sized run show ?thesis by simp
qed

end
